theory Spec2Isabelle
  imports Main "HOL-Library.Multiset"
begin

section \<open>Accessible objects (genericaccessibleobject.py)\<close>

text \<open>
  The four concrete classes below \<^verbatim>\<open>GenericAccessibleObject\<close> form a closed variant.
  The type \<open>'o\<close> stands for Python type objects (the owner, the field type), \<open>'f\<close> for
  callables and \<open>'s\<close> for inferred signatures. A constructor stores its owner and its
  signature (its callable is \<^verbatim>\<open>owner.__init__\<close>), a method owner, callable and signature,
  a function (owner \<^verbatim>\<open>None\<close>) callable and signature, a field owner, field name and
  optional field type.
\<close>

datatype ('o, 'f, 's) accessible =
    GenericConstructor 'o 's
  | GenericMethod 'o 'f 's
  | GenericFunction 'f 's
  | GenericField 'o string "'o option"

text \<open>The property \<^verbatim>\<open>owner\<close> of the base class: \<^verbatim>\<open>None\<close> for a function.\<close>

fun owner :: "('o, 'f, 's) accessible \<Rightarrow> 'o option" where
  "owner (GenericConstructor ow sg) = Some ow"
| "owner (GenericMethod ow c sg) = Some ow"
| "owner (GenericFunction c sg) = None"
| "owner (GenericField ow fld ty) = Some ow"

text \<open>
  The four kind predicates. The base class answers \<^verbatim>\<open>False\<close> to each of them, and every
  concrete class overrides exactly the one that names it; the last equation of each
  function is the inherited base method.
\<close>

fun is_method :: "('o, 'f, 's) accessible \<Rightarrow> bool" where
  "is_method (GenericMethod ow c sg) = True"
| "is_method _ = False"

fun is_constructor :: "('o, 'f, 's) accessible \<Rightarrow> bool" where
  "is_constructor (GenericConstructor ow sg) = True"
| "is_constructor _ = False"

fun is_function :: "('o, 'f, 's) accessible \<Rightarrow> bool" where
  "is_function (GenericFunction c sg) = True"
| "is_function _ = False"

fun is_field :: "('o, 'f, 's) accessible \<Rightarrow> bool" where
  "is_field (GenericField ow fld ty) = True"
| "is_field _ = False"

text \<open>
  \<^verbatim>\<open>GenericField.__eq__(self, other)\<close>. The receiver is a field; \<^verbatim>\<open>other\<close> is any
  accessible object, and \<^verbatim>\<open>isinstance(other, GenericField)\<close> is the match on its
  constructor. The last conjunct of the source compares \<^verbatim>\<open>self._field\<close> with
  \<^verbatim>\<open>self._field\<close>, and so it is written here. The shortcut \<^verbatim>\<open>self is other\<close> needs no
  equation of its own: an object has the owner and the field of itself, so the general
  path answers \<^verbatim>\<open>True\<close> as well. The last equation covers a receiver that is no field,
  for which the method is never called.
\<close>

fun GenericField_eq :: "('o, 'f, 's) accessible \<Rightarrow> ('o, 'f, 's) accessible \<Rightarrow> bool" where
  "GenericField_eq (GenericField ow1 fld1 ty1) (GenericField ow2 fld2 ty2) =
     (ow1 = ow2 \<and> fld1 = fld1)"
| "GenericField_eq (GenericField ow1 fld1 ty1) _ = False"
| "GenericField_eq _ _ = False"

text \<open>
  \<^verbatim>\<open>GenericField.__hash__\<close>: \<^verbatim>\<open>31 + 17 * hash(self._owner) + 17 * hash(self._field)\<close> over
  Python's unbounded integers. The built-in \<^verbatim>\<open>hash\<close> of type objects and of strings is
  not part of the repository; it is the pair of parameters \<open>hash_owner\<close>, \<open>hash_str\<close>.
\<close>

fun GenericField_hash ::
  "('o \<Rightarrow> int) \<Rightarrow> (string \<Rightarrow> int) \<Rightarrow> ('o, 'f, 's) accessible \<Rightarrow> int" where
  "GenericField_hash hash_owner hash_str (GenericField ow fld ty) =
     31 + 17 * hash_owner ow + 17 * hash_str fld"
| "GenericField_hash hash_owner hash_str _ = 0"

section \<open>The CodaMOSA strategy (llmmosastrategy.py)\<close>

subsection \<open>Objects, collaborators and state\<close>

text \<open>
  Python lists are heterogeneous: the population, the offspring and the fronts hold
  chromosomes, and \<^verbatim>\<open>evolve_targeted\<close> also hands raw test cases around. Both are
  modelled by one type of objects. An object carries the scratch attribute
  \<^verbatim>\<open>distance\<close>, which the diversity assignment overwrites and the truncation sorts by,
  and an opaque \<open>payload\<close> for everything else (statements, caches, the changed flag).
  Distances are Python floats; the model only needs them linearly ordered (type \<open>'d\<close>).
  Whether an object is a chromosome is decided when one of a chromosome's methods is
  called on it: a call on an object without that method raises AttributeError.
\<close>

record ('p, 'd) individual =
  payload :: 'p
  distance :: 'd

datatype error = IndexError | AttributeError

text \<open>
  Everything \<^verbatim>\<open>CodaMOSATestStrategy\<close> calls and that is not in the file: the
  configuration, the goals, the archive (of an abstract type \<open>'a\<close>), the ranking
  function, the diversity measure, the breeder, the seeding by the language model, the
  operations of a chromosome and the stopping condition. Collaborators that depend on
  time or on the random generator take a position of the \<open>tape\<close>, a counter that the
  strategy advances whenever it consults one of them, so that two calls may answer
  differently. \<open>epsilon_distance front goals i\<close> is the distance that
  \<^verbatim>\<open>fast_epsilon_dominance_assignment\<close> stores on the \<open>i\<close>-th member of \<open>front\<close>.
  \<open>is_chromosome\<close> tells whether an object has the methods of a chromosome that the
  strategy and the ranking call (\<^verbatim>\<open>mutate\<close>, \<^verbatim>\<open>has_changed\<close>, the fitness values); the
  operations \<open>mutate\<close>, \<open>has_changed\<close> and \<open>size_of\<close> and the ranking are those of
  chromosomes.
  The reporting hooks (\<^verbatim>\<open>before_search_start\<close>, \<^verbatim>\<open>after_search_iteration\<close>, the
  statistics and the logger) return nothing the strategy reads and are left out.
\<close>

record ('p, 'd, 'g, 'a, 's) collaborators =
  cfg_population :: nat
  test_case_fitness_functions :: "'g list"
  get_random_population :: "('p, 'd) individual list"
  empty_archive :: 'a
  update_archive :: "'a \<Rightarrow> ('p, 'd) individual list \<Rightarrow> 'a"
  covered_goals :: "'a \<Rightarrow> 'g list"
  uncovered_goals :: "'a \<Rightarrow> 'g list"
  solutions :: "'a \<Rightarrow> ('p, 'd) individual list"
  compute_ranking_assignment ::
    "('p, 'd) individual list \<Rightarrow> 'g list \<Rightarrow> ('p, 'd) individual list list"
  epsilon_distance :: "('p, 'd) individual list \<Rightarrow> 'g list \<Rightarrow> nat \<Rightarrow> 'd"
  create_test_suite :: "('p, 'd) individual list \<Rightarrow> 's"
  resources_left :: "nat \<Rightarrow> bool"
  breed_next_generation ::
    "nat \<Rightarrow> ('p, 'd) individual list \<Rightarrow> 'a \<Rightarrow> ('p, 'd) individual list"
  target_uncovered_functions :: "nat \<Rightarrow> 's \<Rightarrow> nat \<Rightarrow> ('p, 'd) individual list"
  TestCaseChromosome :: "('p, 'd) individual \<Rightarrow> ('p, 'd) individual"
  random_number :: "nat \<Rightarrow> nat"
  clone :: "('p, 'd) individual \<Rightarrow> ('p, 'd) individual"
  mutate :: "nat \<Rightarrow> ('p, 'd) individual \<Rightarrow> ('p, 'd) individual"
  has_changed :: "('p, 'd) individual \<Rightarrow> bool"
  size_of :: "('p, 'd) individual \<Rightarrow> nat"
  is_chromosome :: "('p, 'd) individual \<Rightarrow> bool"

text \<open>The mutable attributes of the strategy, and the tape position.\<close>

record ('p, 'd, 'a) strategy =
  population :: "('p, 'd) individual list"
  archive :: 'a
  tape :: nat

subsection \<open>Helpers that are not in the file\<close>

text \<open>
  Modelled from the spec: \<^verbatim>\<open>get_sub_front\<close> of the ranking result is not under src/.
  The fronts are a sequence in rank order, and section 7 of the spec lets a front with
  zero members signal that no further front exists; so a rank past the last front
  answers the empty front.
\<close>

definition get_sub_front :: "'x list list \<Rightarrow> nat \<Rightarrow> 'x list" where
  "get_sub_front fronts rank = (if rank < length fronts then fronts ! rank else [])"

text \<open>
  Modelled from the spec: \<^verbatim>\<open>fast_epsilon_dominance_assignment\<close> is not under src/.
  Section 4.5 of the spec: it stores one scalar distance on every member of the front,
  overwriting the prior value, and changes nothing else. The value stored is the
  collaborator \<open>epsilon_distance\<close>.
\<close>

definition fast_epsilon_dominance_assignment ::
  "('p, 'd, 'g, 'a, 's) collaborators \<Rightarrow> ('p, 'd) individual list \<Rightarrow> 'g list
     \<Rightarrow> ('p, 'd) individual list" where
  "fast_epsilon_dominance_assignment E front goals =
     map (\<lambda>(i, t). t\<lparr>distance := epsilon_distance E front goals i\<rparr>) (enumerate 0 front)"

text \<open>
  \<^verbatim>\<open>front.sort(key=lambda t: t.distance, reverse=True)\<close>: Python's sort is stable, also
  with \<^verbatim>\<open>reverse=True\<close>: descending keys, members of equal key in their former order.
\<close>

definition sort_reverse :: "('p, 'd::linorder) individual list \<Rightarrow> ('p, 'd) individual list" where
  "sort_reverse front = rev (sort_key distance (rev front))"

text \<open>
  Modelled from the spec: \<^verbatim>\<open>randomness.choice\<close> is not under src/. Section 4.1a of the
  spec: a uniformly random member of the sequence, here the member at the position the
  random generator gives. An empty sequence has no member to return: Python's
  \<^verbatim>\<open>random.choice\<close> raises IndexError.
\<close>

definition choice :: "nat \<Rightarrow> 'x list \<Rightarrow> error + 'x" where
  "choice r xs = (if xs = [] then Inl IndexError else Inr (xs ! (r mod length xs)))"

subsection \<open>evolve_common\<close>

text \<open>
  The admission loop of lines 144 to 154 on its four variables: the new population,
  \<open>remain\<close>, \<open>index\<close> and \<open>front\<close>. The chained comparison
  \<^verbatim>\<open>remain >= len(front) != 0\<close> is the conjunction of its two halves. The assignment of
  distances updates the members of the front in place, so the population is extended
  with the updated members and \<open>front\<close> keeps them when no next front is fetched.
\<close>

function admission_loop ::
  "('p, 'd, 'g, 'a, 's) collaborators \<Rightarrow> 'g list \<Rightarrow> ('p, 'd) individual list list
     \<Rightarrow> ('p, 'd) individual list \<times> nat \<times> nat \<times> ('p, 'd) individual list
     \<Rightarrow> ('p, 'd) individual list \<times> nat \<times> nat \<times> ('p, 'd) individual list" where
  "admission_loop E uncovered fronts (pop, remain, index, front) =
     (if remain > 0 \<and> remain \<ge> length front \<and> length front \<noteq> 0 then
        admission_loop E uncovered fronts
          (pop @ fast_epsilon_dominance_assignment E front uncovered,
           remain - length (fast_epsilon_dominance_assignment E front uncovered),
           index + 1,
           if remain - length (fast_epsilon_dominance_assignment E front uncovered) > 0
           then get_sub_front fronts (index + 1)
           else fast_epsilon_dominance_assignment E front uncovered)
      else (pop, remain, index, front))"
  by pat_completeness auto
termination
  by (relation "measure (\<lambda>(E, uncovered, fronts, pop, remain, index, front). remain)")
     (auto simp: fast_epsilon_dominance_assignment_def)

text \<open>
  Lines 156 to 161, on the variables the loop leaves: the front is given its distances,
  sorted by descending distance, and its first \<open>remain\<close> members are appended. The
  \<^verbatim>\<open>for k in range(remain)\<close> loop reads \<^verbatim>\<open>front[k]\<close>, which raises IndexError past the
  end of the front; the model keeps that branch.
\<close>

definition insert_best ::
  "('p, 'd::linorder, 'g, 'a, 's) collaborators \<Rightarrow> 'g list
     \<Rightarrow> ('p, 'd) individual list \<times> nat \<times> nat \<times> ('p, 'd) individual list
     \<Rightarrow> error + ('p, 'd) individual list" where
  "insert_best E uncovered s =
     (case s of (pop, remain, index, front) \<Rightarrow>
        if remain > 0 \<and> length front \<noteq> 0 then
          (let sorted_front =
                 sort_reverse (fast_epsilon_dominance_assignment E front uncovered)
           in if remain \<le> length sorted_front then Inr (pop @ take remain sorted_front)
              else Inl IndexError)
        else Inr pop)"

text \<open>
  \<^verbatim>\<open>evolve_common\<close>: the union of the population and the offspring is ranked against
  the uncovered goals, read once; \<open>remain\<close> starts at the length of the current
  population; the population is rebuilt by the loop and the last front, and the
  archive is updated with it.
\<close>

definition evolve_common ::
  "('p, 'd::linorder, 'g, 'a, 's) collaborators \<Rightarrow> ('p, 'd, 'a) strategy
     \<Rightarrow> ('p, 'd) individual list \<Rightarrow> error + ('p, 'd, 'a) strategy" where
  "evolve_common E st offspring_population =
     (let union = population st @ offspring_population;
          uncovered = uncovered_goals E (archive st);
          fronts = compute_ranking_assignment E union uncovered
      in case insert_best E uncovered
                (admission_loop E uncovered fronts
                   ([], length (population st), 0, get_sub_front fronts 0)) of
           Inl e \<Rightarrow> Inl e
         | Inr pop \<Rightarrow>
             Inr (st\<lparr>population := pop, archive := update_archive E (archive st) pop\<rparr>))"

subsection \<open>evolve and evolve_targeted\<close>

text \<open>\<^verbatim>\<open>evolve\<close>: one call of the breeder, then the common step.\<close>

definition evolve ::
  "('p, 'd::linorder, 'g, 'a, 's) collaborators \<Rightarrow> ('p, 'd, 'a) strategy
     \<Rightarrow> error + ('p, 'd, 'a) strategy" where
  "evolve E st =
     (let offspring_population =
            breed_next_generation E (tape st) (population st) (archive st)
      in evolve_common E (st\<lparr>tape := tape st + 1\<rparr>) offspring_population)"

text \<open>
  The loop of lines 97 to 105. It draws from \<open>test_cases\<close>, the raw seeds, and appends
  to \<open>test_case_chromosomes\<close>. The clone of the seed drawn is handed to
  \<^verbatim>\<open>self._mutate\<close>, which calls the methods of a chromosome on it: on a clone that is
  no chromosome line 103 raises AttributeError. Nothing bounds the number of its iterations (a mutation
  that never changes its clone is drawn again and again), so the loop is a partial
  function: \<open>None\<close> is a run that never leaves it. Every iteration reads one position
  of the tape.
\<close>

partial_function (option) targeted_loop ::
  "('p, 'd, 'g, 'a, 's) collaborators \<Rightarrow> ('p, 'd) individual list \<Rightarrow> nat
     \<Rightarrow> ('p, 'd) individual list \<Rightarrow> (error + ('p, 'd) individual list \<times> nat) option" where
  "targeted_loop E test_cases t test_case_chromosomes =
     (if length test_case_chromosomes < cfg_population E then
        (case choice (random_number E t) test_cases of
           Inl e \<Rightarrow> Some (Inl e)
         | Inr to_mutate \<Rightarrow>
             (if \<not> is_chromosome E (clone E to_mutate) then Some (Inl AttributeError)
              else
                (let offspring = mutate E t (clone E to_mutate)
                 in if has_changed E offspring \<and> size_of E offspring > 0 then
                      targeted_loop E test_cases (t + 1) (test_case_chromosomes @ [offspring])
                    else targeted_loop E test_cases (t + 1) test_case_chromosomes)))
      else Some (Inr (test_case_chromosomes, t)))"

declare targeted_loop.simps [code]

text \<open>
  \<^verbatim>\<open>evolve_targeted\<close>: at most 10 seeds are asked for and wrapped, the loop fills
  \<open>test_case_chromosomes\<close>, and line 107 calls \<^verbatim>\<open>evolve_common(test_cases)\<close>: the list
  \<open>test_case_chromosomes\<close> that the loop returns is bound and not read again.
  \<^verbatim>\<open>evolve_common\<close> is modelled on chromosomes: its ranking reads the fitness values of
  every member of the union and raises AttributeError on an object that is no
  chromosome. Line 107 is the one call that hands over objects that were never
  wrapped, so that error is raised here.
\<close>

definition evolve_targeted ::
  "('p, 'd::linorder, 'g, 'a, 's) collaborators \<Rightarrow> ('p, 'd, 'a) strategy \<Rightarrow> 's
     \<Rightarrow> (error + ('p, 'd, 'a) strategy) option" where
  "evolve_targeted E st test_suite =
     (let test_cases = target_uncovered_functions E (tape st) test_suite 10
      in case targeted_loop E test_cases (tape st + 1)
                (map (TestCaseChromosome E) test_cases) of
           None \<Rightarrow> None
         | Some (Inl e) \<Rightarrow> Some (Inl e)
         | Some (Inr (test_case_chromosomes, t)) \<Rightarrow>
             Some (if list_all (is_chromosome E) test_cases
                   then evolve_common E (st\<lparr>tape := t\<rparr>) test_cases
                   else Inl AttributeError))"

subsection \<open>generate_tests\<close>

text \<open>
  Lines 66 to 73: the stagnation counter. Given the number of covered goals read in
  this iteration and the pair of \<open>last_num_covered_goals\<close> and \<open>its_without_update\<close>,
  it returns the new pair and the kind of step that line 72 selects.
\<close>

datatype step = Normal | Targeted

definition stagnation_update :: "nat \<Rightarrow> nat \<times> nat \<Rightarrow> (nat \<times> nat) \<times> step" where
  "stagnation_update num_covered_goals c =
     (case c of (last_num_covered_goals, its_without_update) \<Rightarrow>
        let its = (if num_covered_goals = last_num_covered_goals
                   then its_without_update + 1 else 0)
        in if its > 25 then ((num_covered_goals, 0), Targeted)
           else ((num_covered_goals, its), Normal))"

text \<open>
  The body of the main loop, lines 66 to 77, on the strategy and the two counters. The
  targeted step gets the test suite of the archive's solutions.
\<close>

definition loop_body ::
  "('p, 'd::linorder, 'g, 'a, 's) collaborators \<Rightarrow> ('p, 'd, 'a) strategy \<times> nat \<times> nat
     \<Rightarrow> (error + ('p, 'd, 'a) strategy \<times> nat \<times> nat) option" where
  "loop_body E s =
     (case s of (st, c) \<Rightarrow>
        case stagnation_update (length (covered_goals E (archive st))) c of
          (c', kind) \<Rightarrow>
            map_option (map_sum id (\<lambda>st'. (st', c')))
              (case kind of
                 Targeted \<Rightarrow>
                   evolve_targeted E st (create_test_suite E (solutions E (archive st)))
               | Normal \<Rightarrow> Some (evolve E st)))"

text \<open>
  The guard of line 62 to 65. \<^verbatim>\<open>self._number_of_goals - len(covered_goals) != 0\<close> is a
  subtraction of Python integers, not a truncating one.
\<close>

definition loop_guard ::
  "('p, 'd, 'g, 'a, 's) collaborators \<Rightarrow> ('p, 'd, 'a) strategy \<Rightarrow> bool" where
  "loop_guard E st \<longleftrightarrow>
     resources_left E (tape st)
     \<and> int (length (test_case_fitness_functions E))
         - int (length (covered_goals E (archive st))) \<noteq> 0"

text \<open>
  The main loop. It ends when the stopping condition or full coverage says so, which
  nothing in the file guarantees: it is a partial function, and \<open>None\<close> is a search
  that never ends.
\<close>

partial_function (option) search_loop ::
  "('p, 'd::linorder, 'g, 'a, 's) collaborators \<Rightarrow> ('p, 'd, 'a) strategy \<times> nat \<times> nat
     \<Rightarrow> (error + ('p, 'd, 'a) strategy \<times> nat \<times> nat) option" where
  "search_loop E s =
     (if loop_guard E (fst s) then
        (case loop_body E s of
           None \<Rightarrow> None
         | Some (Inl e) \<Rightarrow> Some (Inl e)
         | Some (Inr s') \<Rightarrow> search_loop E s')
      else Some (Inr s))"

declare search_loop.simps [code]

text \<open>
  Lines 44 to 54: the random population seeds the archive. The ranking of lines 48 to
  54 stores a rank and a distance on every member, in place, so that the members held
  by the population and by the archive carry them too. These are the scratch values
  of one generation: \<^verbatim>\<open>evolve_common\<close> assigns the distances again before it sorts by
  them, and nothing else in the file reads them. The model does not thread them: the
  members of the initial state keep the distance they were created with.
\<close>

definition initial_strategy ::
  "('p, 'd, 'g, 'a, 's) collaborators \<Rightarrow> ('p, 'd, 'a) strategy" where
  "initial_strategy E =
     \<lparr>population = get_random_population E,
      archive = update_archive E (empty_archive E) (get_random_population E),
      tape = 0\<rparr>"

text \<open>
  Modelled from the spec: \<^verbatim>\<open>_get_best_individuals\<close> is a method of the base class
  \<^verbatim>\<open>AbstractMOSATestStrategy\<close>, which is not under src/. Section 4.1, step 5 of the spec:
  the fallback is the single best-ranked chromosome of the final population, which is
  the first member of the first front of the population ranked against the uncovered
  goals (none when the population is empty).
\<close>

definition get_best_individuals ::
  "('p, 'd, 'g, 'a, 's) collaborators \<Rightarrow> ('p, 'd, 'a) strategy \<Rightarrow> ('p, 'd) individual list" where
  "get_best_individuals E st =
     take 1 (get_sub_front
       (compute_ranking_assignment E (population st) (uncovered_goals E (archive st))) 0)"

text \<open>Lines 80 to 84: the value returned once the loop is left.\<close>

definition final_suite ::
  "('p, 'd, 'g, 'a, 's) collaborators \<Rightarrow> ('p, 'd, 'a) strategy \<Rightarrow> 's" where
  "final_suite E st =
     create_test_suite E
       (if length (solutions E (archive st)) > 0 then solutions E (archive st)
        else get_best_individuals E st)"

text \<open>
  \<^verbatim>\<open>generate_tests\<close>: the counters start at the number of goals covered by the initial
  archive and at 0.
\<close>

definition generate_tests ::
  "('p, 'd::linorder, 'g, 'a, 's) collaborators \<Rightarrow> (error + 's) option" where
  "generate_tests E =
     (let st = initial_strategy E;
          last_num_covered_goals = length (covered_goals E (archive st));
          its_without_update = 0
      in case search_loop E (st, last_num_covered_goals, its_without_update) of
           None \<Rightarrow> None
         | Some (Inl e) \<Rightarrow> Some (Inl e)
         | Some (Inr (st', c)) \<Rightarrow> Some (Inr (final_suite E st')))"

subsection \<open>The steps as the specification words them\<close>

text \<open>
  Section 4.3, step 3 of the spec, with the rule of section 7 for a front without
  members: the fronts are walked in rank order; a front that fits the remaining
  capacity is admitted whole, with its distances assigned; the first front that does
  not fit is given its distances, sorted by descending distance, and only its first
  members up to the remaining capacity are admitted; the walk ends there, and it ends
  at a front that has no member.
\<close>

fun front_by_front ::
  "('p, 'd::linorder, 'g, 'a, 's) collaborators \<Rightarrow> 'g list \<Rightarrow> nat
     \<Rightarrow> ('p, 'd) individual list list \<Rightarrow> ('p, 'd) individual list" where
  "front_by_front E goals capacity [] = []"
| "front_by_front E goals capacity (front # fronts) =
     (if front = [] then []
      else if length front \<le> capacity then
        fast_epsilon_dominance_assignment E front goals
          @ front_by_front E goals (capacity - length front) fronts
      else take capacity (sort_reverse (fast_epsilon_dominance_assignment E front goals)))"


subsection \<open>A small instance for evaluation\<close>

text \<open>
  A concrete choice of every collaborator, on which the definitions above compute. A
  test is a list of statement numbers, raw or wrapped into a chromosome with its
  changed flag; a goal is a number, covered by the tests that contain it. The archive
  is the list of the covered goals, each with the first test that covered it. The
  ranking drops repeated members and puts the tests that cover an uncovered goal
  before the others. The distance of a test is the number of its statements. The
  breeder appends the tape position to every test; a mutation does so at odd positions
  and changes nothing at even ones. The seeding answers with the given seeds, and the
  budget is a number of tape positions. The raw tests of \<open>demo\<close> answer every call
  that a chromosome answers, so that a run goes through the whole targeted step and
  shows what it hands on; \<open>strict\<close> is the same instance with raw tests that have none
  of the methods of a chromosome, as the test cases of the repository.
\<close>

datatype test = TestCase "nat list" | Chromosome "nat list" bool

fun statements :: "test \<Rightarrow> nat list" where
  "statements (TestCase xs) = xs"
| "statements (Chromosome xs ch) = xs"

definition covers :: "nat list \<Rightarrow> (test, nat) individual \<Rightarrow> bool" where
  "covers goals t \<longleftrightarrow> filter (\<lambda>g. g \<in> set (statements (payload t))) goals \<noteq> []"

definition demo_update ::
  "nat list \<Rightarrow> (nat \<times> (test, nat) individual) list \<Rightarrow> (test, nat) individual list
     \<Rightarrow> (nat \<times> (test, nat) individual) list" where
  "demo_update goals ar pop =
     ar @ concat (map (\<lambda>g. if g \<in> set (map fst ar) then []
                              else map (\<lambda>t. (g, t)) (take 1 (filter (covers [g]) pop))) goals)"

definition demo_ranking ::
  "(test, nat) individual list \<Rightarrow> nat list \<Rightarrow> (test, nat) individual list list" where
  "demo_ranking members goals =
     filter (\<lambda>front. front \<noteq> [])
       [filter (covers goals) (remdups members),
        filter (\<lambda>t. \<not> covers goals t) (remdups members)]"

definition demo ::
  "nat \<Rightarrow> nat list \<Rightarrow> (test, nat) individual list \<Rightarrow> (test, nat) individual list \<Rightarrow> nat
     \<Rightarrow> (test, nat, nat, (nat \<times> (test, nat) individual) list, nat list list) collaborators" where
  "demo n goals initial seeds budget =
     \<lparr>cfg_population = n,
      test_case_fitness_functions = goals,
      get_random_population = initial,
      empty_archive = [],
      update_archive = demo_update goals,
      covered_goals = map fst,
      uncovered_goals = (\<lambda>ar. filter (\<lambda>g. g \<notin> set (map fst ar)) goals),
      solutions = (\<lambda>ar. remdups (map snd ar)),
      compute_ranking_assignment = demo_ranking,
      epsilon_distance = (\<lambda>front gs i. length (statements (payload (front ! i)))),
      create_test_suite = map (\<lambda>t. statements (payload t)),
      resources_left = (\<lambda>t. t < budget),
      breed_next_generation =
        (\<lambda>t pop ar.
           map (\<lambda>c. c\<lparr>payload := Chromosome (statements (payload c) @ [t]) True\<rparr>) pop),
      target_uncovered_functions = (\<lambda>t suite k. take k seeds),
      TestCaseChromosome = (\<lambda>c. c\<lparr>payload := Chromosome (statements (payload c)) False\<rparr>),
      random_number = (\<lambda>t. t),
      clone = (\<lambda>c. c),
      mutate =
        (\<lambda>t c. if even t then c\<lparr>payload := Chromosome (statements (payload c)) False\<rparr>
                else c\<lparr>payload := Chromosome (statements (payload c) @ [t]) True\<rparr>),
      has_changed = (\<lambda>c. case payload c of Chromosome xs ch \<Rightarrow> ch | TestCase xs \<Rightarrow> False),
      size_of = (\<lambda>c. length (statements (payload c))),
      is_chromosome = (\<lambda>c. True)\<rparr>"

definition strict ::
  "(test, nat, nat, (nat \<times> (test, nat) individual) list, nat list list) collaborators
     \<Rightarrow> (test, nat, nat, (nat \<times> (test, nat) individual) list, nat list list) collaborators" where
  "strict E =
     E\<lparr>is_chromosome :=
         (\<lambda>c. case payload c of Chromosome xs ch \<Rightarrow> True | TestCase xs \<Rightarrow> False)\<rparr>"

abbreviation raw :: "nat list \<Rightarrow> (test, nat) individual" where
  "raw xs \<equiv> \<lparr>payload = TestCase xs, distance = 0\<rparr>"

abbreviation chromosome :: "nat list \<Rightarrow> bool \<Rightarrow> nat \<Rightarrow> (test, nat) individual" where
  "chromosome xs ch d \<equiv> \<lparr>payload = Chromosome xs ch, distance = d\<rparr>"

section \<open>Properties of evolve_common\<close>

subsection \<open>The admission loop computes the front-by-front admission\<close>

declare admission_loop.simps [simp del]

lemma length_fast_epsilon_dominance_assignment [simp]:
  "length (fast_epsilon_dominance_assignment E front goals) = length front"
  by (simp add: fast_epsilon_dominance_assignment_def)

lemma fast_epsilon_dominance_assignment_payload:
  "map payload (fast_epsilon_dominance_assignment E front goals) = map payload front"
  by (rule nth_equalityI)
     (simp_all add: fast_epsilon_dominance_assignment_def nth_enumerate_eq)

lemma length_sort_reverse [simp]: "length (sort_reverse front) = length front"
  by (simp add: sort_reverse_def)

lemma mset_sort_reverse [simp]: "mset (sort_reverse front) = mset front"
  by (simp add: sort_reverse_def)

lemma sorted_sort_reverse: "sorted (rev (map distance (sort_reverse front)))"
  by (simp add: sort_reverse_def rev_map [symmetric])

lemma front_by_front_zero [simp]: "front_by_front E goals 0 fronts = []"
  by (cases fronts) auto

lemma get_sub_front_drop:
  "get_sub_front fronts i \<noteq> [] \<Longrightarrow> drop i fronts = get_sub_front fronts i # drop (Suc i) fronts"
  by (auto simp: get_sub_front_def Cons_nth_drop_Suc split: if_splits)

lemma get_sub_front_empty:
  "get_sub_front fronts i = [] \<Longrightarrow> front_by_front E goals c (drop i fronts) = []"
proof (cases "i < length fronts")
  case True
  assume "get_sub_front fronts i = []"
  with True have "fronts ! i = []" by (simp add: get_sub_front_def)
  with True have "drop i fronts = [] # drop (Suc i) fronts"
    using Cons_nth_drop_Suc [of i fronts] by simp
  then show ?thesis by simp
next
  case False
  then show ?thesis by simp
qed

lemma admission_loop_front_by_front:
  "remain = 0 \<or> front = get_sub_front fronts index \<Longrightarrow>
   insert_best E goals (admission_loop E goals fronts (pop, remain, index, front))
     = Inr (pop @ front_by_front E goals remain (drop index fronts))"
proof (induction E goals fronts "(pop, remain, index, front)" arbitrary: pop remain index front rule: admission_loop.induct)
  case (1 E uncovered fronts pop remain index front)
  show ?case
  proof (cases "remain > 0 \<and> remain \<ge> length front \<and> length front \<noteq> 0")
    case True
    then have fr: "front = get_sub_front fronts index" "front \<noteq> []" using 1(2) by auto
    have dr: "drop index fronts = front # drop (Suc index) fronts"
      using get_sub_front_drop fr by metis
    show ?thesis
      using True 1(1)[OF True] fr
      by (subst admission_loop.simps) (auto simp: dr)
  next
    case False
    show ?thesis
    proof (cases "remain = 0")
      case True
      then show ?thesis by (subst admission_loop.simps) (simp add: insert_best_def)
    next
      case nz: False
      then have fr: "front = get_sub_front fronts index" using 1(2) by simp
      show ?thesis
      proof (cases "front = []")
        case True
        then show ?thesis using fr nz
          by (subst admission_loop.simps) (simp add: insert_best_def get_sub_front_empty)
      next
        case ne: False
        have dr: "drop index fronts = front # drop (Suc index) fronts"
          using get_sub_front_drop fr ne by metis
        from False nz ne have "remain < length front" by simp
        then show ?thesis using nz ne
          by (subst admission_loop.simps) (simp add: insert_best_def dr)
      qed
    qed
  qed
qed

lemma evolve_common_front_by_front:
  "evolve_common E st offspring_population =
     Inr (st\<lparr>population :=
               front_by_front E (uncovered_goals E (archive st)) (length (population st))
                 (compute_ranking_assignment E (population st @ offspring_population)
                    (uncovered_goals E (archive st))),
             archive := update_archive E (archive st)
               (front_by_front E (uncovered_goals E (archive st)) (length (population st))
                 (compute_ranking_assignment E (population st @ offspring_population)
                    (uncovered_goals E (archive st))))\<rparr>)"
  using admission_loop_front_by_front [of "length (population st)" "get_sub_front
       (compute_ranking_assignment E (population st @ offspring_population)
                    (uncovered_goals E (archive st))) 0" "(compute_ranking_assignment E (population st @ offspring_population)
                    (uncovered_goals E (archive st)))" 0 E "uncovered_goals E (archive st)" "[]"]
  by (simp add: evolve_common_def Let_def)

lemma front_by_front_append:
  "\<forall>front \<in> set pre. front \<noteq> [] \<Longrightarrow> length (concat pre) \<le> capacity \<Longrightarrow>
   front_by_front E goals capacity (pre @ rest) =
     concat (map (\<lambda>front. fast_epsilon_dominance_assignment E front goals) pre)
       @ front_by_front E goals (capacity - length (concat pre)) rest"
  by (induction pre arbitrary: capacity) auto

lemma length_front_by_front:
  "\<forall>front \<in> set fronts. front \<noteq> [] \<Longrightarrow>
   length (front_by_front E goals capacity fronts) = min capacity (length (concat fronts))"
  by (induction fronts arbitrary: capacity) auto

lemma length_front_by_front_le:
  "length (front_by_front E goals capacity fronts) \<le> capacity"
proof (induction fronts arbitrary: capacity)
  case Nil
  show ?case by simp
next
  case (Cons front fronts)
  from Cons [of "capacity - length front"] show ?case by auto
qed

subsection \<open>Truncation front by front\<close>

text \<open>
  Claim C4. In evolve_common the truncation to the population size goes front by front
  in rank order: the new population is the front-by-front admission of the ranked
  union with the length of the old population as capacity. Every front that fits the
  remaining capacity is admitted whole with its distances assigned; the first front
  that does not fit is given its distances, sorted by descending distance (a stable
  sort, the same members), and only its first members up to the remaining capacity are
  admitted; the rest of that front and all later fronts are dropped.
\<close>

theorem evolve_common_admits_front_by_front:
  "evolve_common E st offspring_population =
     Inr (st\<lparr>population :=
               front_by_front E (uncovered_goals E (archive st)) (length (population st))
                 (compute_ranking_assignment E (population st @ offspring_population)
                    (uncovered_goals E (archive st))),
             archive := update_archive E (archive st)
               (front_by_front E (uncovered_goals E (archive st)) (length (population st))
                 (compute_ranking_assignment E (population st @ offspring_population)
                    (uncovered_goals E (archive st))))\<rparr>)
   \<and> ((\<forall>fitting \<in> set pre. fitting \<noteq> []) \<and> length (concat pre) \<le> capacity
        \<and> capacity - length (concat pre) < length front
      \<longrightarrow> front_by_front E goals capacity (pre @ front # post) =
            concat (map (\<lambda>fitting. fast_epsilon_dominance_assignment E fitting goals) pre)
              @ take (capacity - length (concat pre))
                  (sort_reverse (fast_epsilon_dominance_assignment E front goals)))
   \<and> sorted (rev (map distance (sort_reverse front)))
   \<and> mset (sort_reverse front) = mset front"
proof -
  have "front_by_front E goals capacity (pre @ front # post) =
            concat (map (\<lambda>fitting. fast_epsilon_dominance_assignment E fitting goals) pre)
              @ take (capacity - length (concat pre))
                  (sort_reverse (fast_epsilon_dominance_assignment E front goals))"
    if "\<forall>fitting \<in> set pre. fitting \<noteq> []" "length (concat pre) \<le> capacity"
       "capacity - length (concat pre) < length front"
    using that by (auto simp: front_by_front_append)
  then show ?thesis
    using evolve_common_front_by_front [of E st offspring_population]
    by (simp add: sorted_sort_reverse)
qed

theorem evolve_common_admits_front_by_front_witness:
  "[chromosome [1] False 0] \<noteq> []
   \<and> length (concat [[chromosome [1] False 0]]) \<le> 2
   \<and> 2 - length (concat [[chromosome [1] False 0]])
        < length [chromosome [5] False 0, chromosome [6, 7] False 0, chromosome [8] False 0]
   \<and> compute_ranking_assignment (demo 2 [1, 2, 3] [] [] 3)
        ([chromosome [1] False 0, chromosome [5] False 0]
           @ [chromosome [6, 7] False 0, chromosome [8] False 0]) [1, 2, 3]
        = [[chromosome [1] False 0]]
            @ [chromosome [5] False 0, chromosome [6, 7] False 0, chromosome [8] False 0] # []
   \<and> evolve_common (demo 2 [1, 2, 3] [] [] 3)
        \<lparr>population = [chromosome [1] False 0, chromosome [5] False 0], archive = [], tape = 0\<rparr>
        [chromosome [6, 7] False 0, chromosome [8] False 0]
      = Inr \<lparr>population = [chromosome [1] False 1, chromosome [6, 7] False 2],
             archive = [(1, chromosome [1] False 1)], tape = 0\<rparr>"
proof -
  have "evolve_common (demo 2 [1, 2, 3] [] [] 3)
        \<lparr>population = [chromosome [1] False 0, chromosome [5] False 0], archive = [], tape = 0\<rparr>
        [chromosome [6, 7] False 0, chromosome [8] False 0]
      = Inr \<lparr>population = [chromosome [1] False 1, chromosome [6, 7] False 2],
             archive = [(1, chromosome [1] False 1)], tape = 0\<rparr>"
    by (subst evolve_common_admits_front_by_front [THEN conjunct1]) code_simp
  moreover have "compute_ranking_assignment (demo 2 [1, 2, 3] [] [] 3)
        ([chromosome [1] False 0, chromosome [5] False 0]
           @ [chromosome [6, 7] False 0, chromosome [8] False 0]) [1, 2, 3]
        = [[chromosome [1] False 0]]
            @ [chromosome [5] False 0, chromosome [6, 7] False 0, chromosome [8] False 0] # []"
    by code_simp
  ultimately show ?thesis by simp
qed

subsection \<open>The size of the population\<close>

text \<open>
  Claim C3 says that after evolve_common the population has the configured size
  whenever the union has at least that size. evolve_common never reads the configured
  size: its capacity is the length of the population it is called with. With one
  member in the population, a configured size of 2 and two offspring, the union has 3
  members and the new population has 1.
\<close>

theorem evolve_common_size_counterexample:
  "cfg_population (demo 2 [1, 2, 3] [] [] 3) = 2
   \<and> length (population \<lparr>population = [chromosome [1] False 0], archive = [], tape = 0\<rparr>
               @ [chromosome [2] False 0, chromosome [3] False 0]) = 3
   \<and> evolve_common (demo 2 [1, 2, 3] [] [] 3)
        \<lparr>population = [chromosome [1] False 0], archive = [], tape = 0\<rparr>
        [chromosome [2] False 0, chromosome [3] False 0]
      = Inr \<lparr>population = [chromosome [1] False 1],
             archive = [(1, chromosome [1] False 1)], tape = 0\<rparr>"
  by code_simp

text \<open>
  Claim C3 as amended. When the ranking returns fronts with at least one member each,
  evolve_common returns without error, and: if the fronts hold at least as many
  members as the population had before the call (as they do when they partition the
  union), the new population has exactly the size of the old one, hence the
  configured size if the old one had it; if they hold fewer, the new population is
  all of their members, with the distances assigned.
\<close>

theorem evolve_common_keeps_population_size:
  assumes "\<forall>front \<in> set (compute_ranking_assignment E (population st @ offspring_population)
                            (uncovered_goals E (archive st))). front \<noteq> []"
  shows "\<exists>st'. evolve_common E st offspring_population = Inr st'
           \<and> (length (population st)
                  \<le> length (concat (compute_ranking_assignment E
                        (population st @ offspring_population) (uncovered_goals E (archive st))))
                \<longrightarrow> length (population st') = length (population st)
                    \<and> (length (population st) = cfg_population E
                          \<longrightarrow> length (population st') = cfg_population E))
           \<and> (length (concat (compute_ranking_assignment E
                        (population st @ offspring_population) (uncovered_goals E (archive st))))
                  < length (population st)
                \<longrightarrow> population st' =
                      concat (map (\<lambda>front. fast_epsilon_dominance_assignment E front
                                     (uncovered_goals E (archive st)))
                        (compute_ranking_assignment E (population st @ offspring_population)
                           (uncovered_goals E (archive st)))))"
proof -
  let ?g = "uncovered_goals E (archive st)"
  let ?fronts = "compute_ranking_assignment E (population st @ offspring_population) ?g"
  let ?pop = "front_by_front E ?g (length (population st)) ?fronts"
  have len: "length ?pop = min (length (population st)) (length (concat ?fronts))"
    using assms by (rule length_front_by_front)
  have all: "?pop = concat (map (\<lambda>front. fast_epsilon_dominance_assignment E front ?g) ?fronts)"
    if "length (concat ?fronts) < length (population st)"
    using front_by_front_append [of ?fronts "length (population st)" E ?g "[]"] assms that
    by simp
  let ?st' = "st\<lparr>population := ?pop, archive := update_archive E (archive st) ?pop\<rparr>"
  have ret: "evolve_common E st offspring_population = Inr ?st'"
    by (rule evolve_common_front_by_front)
  have same: "length (population ?st') = length (population st)"
    if "length (population st) \<le> length (concat ?fronts)"
    using len that by simp
  have "population ?st' = ?pop"
    by simp
  with ret same all show ?thesis
    by metis
qed

theorem evolve_common_keeps_population_size_witness:
  "[chromosome [1] False 0, chromosome [2] False 0, chromosome [3] False 0] \<noteq> []
   \<and> compute_ranking_assignment (demo 2 [1, 2, 3] [] [] 3)
        (population \<lparr>population = [chromosome [1] False 0, chromosome [2] False 0],
                       archive = [], tape = 0\<rparr> @ [chromosome [3] False 0])
        (uncovered_goals (demo 2 [1, 2, 3] [] [] 3) [])
      = [[chromosome [1] False 0, chromosome [2] False 0, chromosome [3] False 0]]
   \<and> (\<exists>st'. evolve_common (demo 2 [1, 2, 3] [] [] 3)
         \<lparr>population = [chromosome [1] False 0, chromosome [2] False 0],
          archive = [], tape = 0\<rparr> [chromosome [3] False 0] = Inr st'
        \<and> length (population st') = 2)"
proof -
  have f: "compute_ranking_assignment (demo 2 [1, 2, 3] [] [] 3)
        (population \<lparr>population = [chromosome [1] False 0, chromosome [2] False 0],
                       archive = [], tape = 0\<rparr> @ [chromosome [3] False 0])
        (uncovered_goals (demo 2 [1, 2, 3] [] [] 3)
           (archive \<lparr>population = [chromosome [1] False 0, chromosome [2] False 0],
                       archive = [], tape = 0\<rparr>))
      = [[chromosome [1] False 0, chromosome [2] False 0, chromosome [3] False 0]]"
    by code_simp
  have h: "\<forall>front \<in> set (compute_ranking_assignment (demo 2 [1, 2, 3] [] [] 3)
        (population \<lparr>population = [chromosome [1] False 0, chromosome [2] False 0],
                       archive = [], tape = 0\<rparr> @ [chromosome [3] False 0])
        (uncovered_goals (demo 2 [1, 2, 3] [] [] 3)
           (archive \<lparr>population = [chromosome [1] False 0, chromosome [2] False 0],
                       archive = [], tape = 0\<rparr>))). front \<noteq> []"
    unfolding f by simp
  show ?thesis
    using evolve_common_keeps_population_size [OF h] f by auto
qed

subsection \<open>A front without members\<close>

text \<open>
  Claim C8. When the truncation meets a front with zero members (an empty front of
  the ranking, or the answer to a rank past its last front) while capacity remains,
  the admission ends without error: evolve_common returns normally, and the new
  population is what was admitted from the fronts before, fewer members than the
  capacity.
\<close>

theorem evolve_common_stops_at_empty_front:
  assumes "compute_ranking_assignment E (population st @ offspring_population)
             (uncovered_goals E (archive st)) = pre @ rest"
      and "\<forall>front \<in> set pre. front \<noteq> []"
      and "length (concat pre) < length (population st)"
      and "get_sub_front (pre @ rest) (length pre) = []"
  shows "evolve_common E st offspring_population =
           Inr (st\<lparr>population :=
                     concat (map (\<lambda>front. fast_epsilon_dominance_assignment E front
                                    (uncovered_goals E (archive st))) pre),
                   archive := update_archive E (archive st)
                     (concat (map (\<lambda>front. fast_epsilon_dominance_assignment E front
                                    (uncovered_goals E (archive st))) pre))\<rparr>)
         \<and> length (concat (map (\<lambda>front. fast_epsilon_dominance_assignment E front
                                    (uncovered_goals E (archive st))) pre))
             < length (population st)"
proof -
  let ?g = "uncovered_goals E (archive st)"
  have "front_by_front E ?g c (drop (length pre) (pre @ rest)) = []" for c
    using assms(4) by (rule get_sub_front_empty)
  then have stop: "front_by_front E ?g c rest = []" for c
    by simp
  have "front_by_front E ?g (length (population st)) (pre @ rest) =
          concat (map (\<lambda>front. fast_epsilon_dominance_assignment E front ?g) pre)"
    using assms(2,3) by (simp add: front_by_front_append stop)
  moreover have "length (concat (map (\<lambda>front. fast_epsilon_dominance_assignment E front ?g) pre))
                   = length (concat pre)"
    by (simp add: length_concat o_def)
  ultimately show ?thesis
    using assms(1,3) by (simp add: evolve_common_front_by_front)
qed

theorem evolve_common_stops_at_empty_front_witness:
  "compute_ranking_assignment (demo 2 [1, 2, 3] [] [] 3)
     (population \<lparr>population = [chromosome [1] False 0, chromosome [1] False 0],
                    archive = [], tape = 0\<rparr> @ [])
     (uncovered_goals (demo 2 [1, 2, 3] [] [] 3)
        (archive \<lparr>population = [chromosome [1] False 0, chromosome [1] False 0],
                    archive = [], tape = 0\<rparr>))
     = [[chromosome [1] False 0]] @ []
   \<and> get_sub_front ([[chromosome [1] False 0]] @ []) (length [[chromosome [1] False 0]]) = []
   \<and> evolve_common (demo 2 [1, 2, 3] [] [] 3)
        \<lparr>population = [chromosome [1] False 0, chromosome [1] False 0],
         archive = [], tape = 0\<rparr> []
      = Inr \<lparr>population = [chromosome [1] False 1],
             archive = [(1, chromosome [1] False 1)], tape = 0\<rparr>"
proof -
  have f: "compute_ranking_assignment (demo 2 [1, 2, 3] [] [] 3)
     (population \<lparr>population = [chromosome [1] False 0, chromosome [1] False 0],
                    archive = [], tape = 0\<rparr> @ [])
     (uncovered_goals (demo 2 [1, 2, 3] [] [] 3)
        (archive \<lparr>population = [chromosome [1] False 0, chromosome [1] False 0],
                    archive = [], tape = 0\<rparr>))
     = [[chromosome [1] False 0]] @ []"
    by code_simp
  have n: "\<forall>front \<in> set [[chromosome [1] False 0]]. front \<noteq> []"
    by simp
  have l: "length (concat [[chromosome [1] False 0]])
             < length (population \<lparr>population = [chromosome [1] False 0, chromosome [1] False 0],
                    archive = [], tape = 0\<rparr>)"
    by simp
  have e: "get_sub_front ([[chromosome [1] False 0]] @ []) (length [[chromosome [1] False 0]]) = []"
    by (simp add: get_sub_front_def)
  have "evolve_common (demo 2 [1, 2, 3] [] [] 3)
        \<lparr>population = [chromosome [1] False 0, chromosome [1] False 0],
         archive = [], tape = 0\<rparr> []
      = Inr \<lparr>population = [chromosome [1] False 1],
             archive = [(1, chromosome [1] False 1)], tape = 0\<rparr>"
    by (subst evolve_common_stops_at_empty_front [OF f n l e, THEN conjunct1]) code_simp
  with f e show ?thesis by blast
qed

section \<open>Properties of evolve_targeted\<close>

subsection \<open>What the seeding loop returns\<close>

text \<open>
  Whenever the loop returns, it either raised or returns a list. It raises IndexError
  only on the choice from an empty list of seeds, and AttributeError only on the
  clone of a seed that is no chromosome. A list it returns is the list it started with
  followed by mutants, at least as many as the configured population size in all;
  every mutant is the mutation of a clone of one of the seeds, has changed and is not
  empty: unchanged and empty mutants are dropped.
\<close>

lemma targeted_loop_result:
  assumes "targeted_loop E seeds t tccs = Some r"
  shows "(r = Inl IndexError \<longrightarrow> seeds = [] \<and> 0 < cfg_population E)
       \<and> (r = Inl AttributeError \<longrightarrow> (\<exists>seed \<in> set seeds. \<not> is_chromosome E (clone E seed)))
       \<and> (\<forall>built t'. r = Inr (built, t') \<longrightarrow>
            cfg_population E \<le> length built
            \<and> (\<exists>mutants. built = tccs @ mutants
                 \<and> (\<forall>m \<in> set mutants. has_changed E m \<and> 0 < size_of E m
                       \<and> (\<exists>k seed. seed \<in> set seeds \<and> is_chromosome E (clone E seed)
                             \<and> m = mutate E k (clone E seed)))))"
  apply (rule targeted_loop.raw_induct
    [where P = "\<lambda>E seeds t tccs r.
       (r = Inl IndexError \<longrightarrow> seeds = [] \<and> 0 < cfg_population E)
       \<and> (r = Inl AttributeError \<longrightarrow> (\<exists>seed \<in> set seeds. \<not> is_chromosome E (clone E seed)))
       \<and> (\<forall>built t'. r = Inr (built, t') \<longrightarrow>
            cfg_population E \<le> length built
            \<and> (\<exists>mutants. built = tccs @ mutants
                 \<and> (\<forall>m \<in> set mutants. has_changed E m \<and> 0 < size_of E m
                       \<and> (\<exists>k seed. seed \<in> set seeds \<and> is_chromosome E (clone E seed)
                             \<and> m = mutate E k (clone E seed)))))",
     OF _ assms])
  subgoal premises prems for loop E seeds t tccs r
  proof (cases "length tccs < cfg_population E")
    case False
    with prems(2) show ?thesis by auto
  next
    case True
    note guard = True
    show ?thesis
    proof (cases "seeds = []")
      case True
      with prems(2) guard show ?thesis by (auto simp: choice_def)
    next
      case False
      define seed where "seed = seeds ! (random_number E t mod length seeds)"
      define offspring where "offspring = mutate E t (clone E seed)"
      have mem: "seed \<in> set seeds"
        using False by (simp add: seed_def)
      show ?thesis
      proof (cases "is_chromosome E (clone E seed)")
        case no: False
        with prems(2) guard \<open>seeds \<noteq> []\<close> have "r = Inl AttributeError"
          by (simp add: choice_def seed_def)
        with no mem show ?thesis by auto
      next
        case yes: True
        show ?thesis
        proof (cases "has_changed E offspring \<and> 0 < size_of E offspring")
          case True
          with prems(2) guard False yes
          have "loop E seeds (t + 1) (tccs @ [offspring]) = Some r"
            by (simp add: choice_def Let_def seed_def offspring_def)
          from prems(1) [OF this]
          have err: "r = Inl IndexError \<longrightarrow> seeds = [] \<and> 0 < cfg_population E"
            and att: "r = Inl AttributeError
                        \<longrightarrow> (\<exists>seed \<in> set seeds. \<not> is_chromosome E (clone E seed))"
            and ret: "\<forall>built t'. r = Inr (built, t') \<longrightarrow>
              cfg_population E \<le> length built
              \<and> (\<exists>mutants. built = (tccs @ [offspring]) @ mutants
                   \<and> (\<forall>m \<in> set mutants. has_changed E m \<and> 0 < size_of E m
                         \<and> (\<exists>k seed. seed \<in> set seeds \<and> is_chromosome E (clone E seed)
                               \<and> m = mutate E k (clone E seed))))"
            by blast+
          have "cfg_population E \<le> length built
              \<and> (\<exists>mutants. built = tccs @ mutants
                   \<and> (\<forall>m \<in> set mutants. has_changed E m \<and> 0 < size_of E m
                         \<and> (\<exists>k seed. seed \<in> set seeds \<and> is_chromosome E (clone E seed)
                               \<and> m = mutate E k (clone E seed))))"
            if "r = Inr (built, t')" for built t'
          proof -
            from ret that obtain mutants where
              len: "cfg_population E \<le> length built"
              and built: "built = (tccs @ [offspring]) @ mutants"
              and ok: "\<forall>m \<in> set mutants. has_changed E m \<and> 0 < size_of E m
                         \<and> (\<exists>k seed. seed \<in> set seeds \<and> is_chromosome E (clone E seed)
                               \<and> m = mutate E k (clone E seed))"
              by blast
            have "\<exists>k seed. seed \<in> set seeds \<and> is_chromosome E (clone E seed)
                    \<and> offspring = mutate E k (clone E seed)"
              using mem yes offspring_def by blast
            with True ok
            have "\<forall>m \<in> set (offspring # mutants). has_changed E m \<and> 0 < size_of E m
                         \<and> (\<exists>k seed. seed \<in> set seeds \<and> is_chromosome E (clone E seed)
                               \<and> m = mutate E k (clone E seed))"
              by simp
            moreover have "built = tccs @ (offspring # mutants)"
              using built by simp
            ultimately show ?thesis
              using len by blast
          qed
          with err att show ?thesis by blast
        next
          case nc: False
          with prems(2) guard \<open>seeds \<noteq> []\<close> yes
          have "loop E seeds (t + 1) tccs = Some r"
            by (auto simp: choice_def Let_def seed_def offspring_def)
          from prems(1) [OF this] show ?thesis .
        qed
      qed
    qed
  qed
  done

lemma evolve_common_no_error: "evolve_common E st offspring_population \<noteq> Inl e"
  by (simp add: evolve_common_front_by_front)

lemma targeted_loop_empty_seeds:
  "length tccs < cfg_population E \<Longrightarrow> targeted_loop E [] t tccs = Some (Inl IndexError)"
  by (subst targeted_loop.simps) (simp add: choice_def)

lemma targeted_loop_not_entered:
  "cfg_population E \<le> length tccs \<Longrightarrow> targeted_loop E seeds t tccs = Some (Inr (tccs, t))"
  by (subst targeted_loop.simps) simp

lemma targeted_loop_raw_seeds:
  assumes "seeds \<noteq> []" and "\<forall>seed \<in> set seeds. \<not> is_chromosome E (clone E seed)"
      and "length tccs < cfg_population E"
  shows "targeted_loop E seeds t tccs = Some (Inl AttributeError)"
proof -
  have "seeds ! (random_number E t mod length seeds) \<in> set seeds"
    using assms(1) by simp
  with assms(2) have "\<not> is_chromosome E (clone E (seeds ! (random_number E t mod length seeds)))"
    by blast
  with assms(1,3) show ?thesis
    by (subst targeted_loop.simps) (simp add: choice_def)
qed

subsection \<open>The candidates handed to evolve_common\<close>

text \<open>
  Claim C1 says that evolve_targeted feeds into evolve_common the set it has built:
  the wrapped seeds and the accepted mutants. Line 107 passes \<^verbatim>\<open>test_cases\<close>, the raw
  seeds, and the list built in \<^verbatim>\<open>test_case_chromosomes\<close> is dropped. With a configured
  size of 3 and one seed, the loop builds the wrapped seed and two mutants; the step
  the code takes is evolve_common on the raw seed alone, and its result differs from
  evolve_common on the three chromosomes built.
\<close>

theorem evolve_targeted_feeds_raw_seeds:
  "target_uncovered_functions (demo 3 [1, 2, 3] [] [raw [2]] 3) 0 [] 10 = [raw [2]]
   \<and> targeted_loop (demo 3 [1, 2, 3] [] [raw [2]] 3) [raw [2]] 1
        (map (TestCaseChromosome (demo 3 [1, 2, 3] [] [raw [2]] 3)) [raw [2]])
      = Some (Inr ([chromosome [2] False 0, chromosome [2, 1] True 0,
                    chromosome [2, 3] True 0], 4))
   \<and> evolve_targeted (demo 3 [1, 2, 3] [] [raw [2]] 3)
        \<lparr>population = [chromosome [1] False 0, chromosome [5] False 0],
         archive = [], tape = 0\<rparr> []
      = Some (evolve_common (demo 3 [1, 2, 3] [] [raw [2]] 3)
          \<lparr>population = [chromosome [1] False 0, chromosome [5] False 0],
           archive = [], tape = 4\<rparr> [raw [2]])
   \<and> evolve_common (demo 3 [1, 2, 3] [] [raw [2]] 3)
        \<lparr>population = [chromosome [1] False 0, chromosome [5] False 0],
         archive = [], tape = 4\<rparr> [raw [2]]
      = Inr \<lparr>population = [chromosome [1] False 1, \<lparr>payload = TestCase [2], distance = 1\<rparr>],
             archive = [(1, chromosome [1] False 1),
                        (2, \<lparr>payload = TestCase [2], distance = 1\<rparr>)],
             tape = 4\<rparr>
   \<and> evolve_common (demo 3 [1, 2, 3] [] [raw [2]] 3)
        \<lparr>population = [chromosome [1] False 0, chromosome [5] False 0],
         archive = [], tape = 4\<rparr>
        [chromosome [2] False 0, chromosome [2, 1] True 0, chromosome [2, 3] True 0]
      = Inr \<lparr>population = [chromosome [2, 1] True 2, chromosome [2, 3] True 2],
             archive = [(1, chromosome [2, 1] True 2), (2, chromosome [2, 1] True 2),
                        (3, chromosome [2, 3] True 2)],
             tape = 4\<rparr>"
  by code_simp

subsection \<open>Exceptions of the targeted step\<close>

text \<open>
  Claim C6 says that evolve_targeted tolerates every sequence of candidates from the
  seeding, the empty one too, and that no exception escapes. The code does not do so.
  The loop draws from the raw seeds (line 101) and hands their clones to the mutation,
  and line 107 hands the raw seeds to evolve_common, where the sibling step evolve
  hands over chromosomes. Raw test cases have none of the methods of a chromosome, so
  for every non-empty sequence of them the step raises AttributeError: at line 103
  when the loop is entered, and in the ranking of line 107 when it is not. With no
  seed and a positive population size the choice of line 101 raises IndexError.
\<close>

theorem evolve_targeted_raises:
  "(target_uncovered_functions E (tape st) test_suite 10 \<noteq> []
      \<and> (\<forall>seed \<in> set (target_uncovered_functions E (tape st) test_suite 10).
            \<not> is_chromosome E seed \<and> \<not> is_chromosome E (clone E seed))
      \<longrightarrow> evolve_targeted E st test_suite = Some (Inl AttributeError))
   \<and> (target_uncovered_functions E (tape st) test_suite 10 = [] \<and> 0 < cfg_population E
      \<longrightarrow> evolve_targeted E st test_suite = Some (Inl IndexError))"
proof -
  let ?seeds = "target_uncovered_functions E (tape st) test_suite 10"
  have "evolve_targeted E st test_suite = Some (Inl AttributeError)"
    if ne: "?seeds \<noteq> []"
      and raw: "\<forall>seed \<in> set ?seeds. \<not> is_chromosome E seed \<and> \<not> is_chromosome E (clone E seed)"
  proof (cases "length ?seeds < cfg_population E")
    case True
    then have "targeted_loop E ?seeds (tape st + 1) (map (TestCaseChromosome E) ?seeds)
                 = Some (Inl AttributeError)"
      using ne raw by (intro targeted_loop_raw_seeds) auto
    then show ?thesis
      by (simp add: evolve_targeted_def)
  next
    case False
    then have "targeted_loop E ?seeds (tape st + 1) (map (TestCaseChromosome E) ?seeds)
                 = Some (Inr (map (TestCaseChromosome E) ?seeds, tape st + 1))"
      by (intro targeted_loop_not_entered) simp
    moreover have "\<not> list_all (is_chromosome E) ?seeds"
      using ne raw by (cases ?seeds) auto
    ultimately show ?thesis
      by (simp add: evolve_targeted_def)
  qed
  moreover have "evolve_targeted E st test_suite = Some (Inl IndexError)"
    if "?seeds = []" "0 < cfg_population E"
    using that by (simp add: evolve_targeted_def targeted_loop_empty_seeds)
  ultimately show ?thesis by blast
qed

text \<open>
  On the instance with raw tests that are no chromosomes: one raw seed and a
  configured size of 3 (the loop is entered), one raw seed and a configured size of 1
  (the loop is skipped and line 107 raises), and no seed with a configured size of 2.
\<close>

theorem evolve_targeted_raises_witness:
  "target_uncovered_functions (strict (demo 3 [1, 2, 3] [] [raw [2]] 3)) 0 [] 10 = [raw [2]]
   \<and> \<not> is_chromosome (strict (demo 3 [1, 2, 3] [] [raw [2]] 3)) (raw [2])
   \<and> \<not> is_chromosome (strict (demo 3 [1, 2, 3] [] [raw [2]] 3))
          (clone (strict (demo 3 [1, 2, 3] [] [raw [2]] 3)) (raw [2]))
   \<and> evolve_targeted (strict (demo 3 [1, 2, 3] [] [raw [2]] 3))
        \<lparr>population = [chromosome [1] False 0, chromosome [5] False 0],
         archive = [], tape = 0\<rparr> []
      = Some (Inl AttributeError)
   \<and> evolve_targeted (strict (demo 1 [1, 2, 3] [] [raw [2]] 3))
        \<lparr>population = [chromosome [1] False 0], archive = [], tape = 0\<rparr> []
      = Some (Inl AttributeError)
   \<and> target_uncovered_functions (strict (demo 2 [1, 2, 3] [] [] 3)) 0 [] 10 = []
   \<and> evolve_targeted (strict (demo 2 [1, 2, 3] [] [] 3))
        \<lparr>population = [chromosome [1] False 0, chromosome [5] False 0],
         archive = [], tape = 0\<rparr> []
      = Some (Inl IndexError)"
proof -
  let ?st = "\<lparr>population = [chromosome [1] False 0, chromosome [5] False 0],
              archive = ([] :: (nat \<times> (test, nat) individual) list), tape = 0\<rparr>"
  let ?st1 = "\<lparr>population = [chromosome [1] False 0],
               archive = ([] :: (nat \<times> (test, nat) individual) list), tape = 0\<rparr>"
  have s3: "target_uncovered_functions (strict (demo 3 [1, 2, 3] [] [raw [2]] 3)) (tape ?st) [] 10
              = [raw [2]]"
    by code_simp
  have n3: "\<not> is_chromosome (strict (demo 3 [1, 2, 3] [] [raw [2]] 3)) (raw [2])"
    by code_simp
  have c3: "\<not> is_chromosome (strict (demo 3 [1, 2, 3] [] [raw [2]] 3))
          (clone (strict (demo 3 [1, 2, 3] [] [raw [2]] 3)) (raw [2]))"
    by code_simp
  have s1: "target_uncovered_functions (strict (demo 1 [1, 2, 3] [] [raw [2]] 3)) (tape ?st1) [] 10
              = [raw [2]]"
    by code_simp
  have n1: "\<not> is_chromosome (strict (demo 1 [1, 2, 3] [] [raw [2]] 3)) (raw [2])"
    by code_simp
  have c1: "\<not> is_chromosome (strict (demo 1 [1, 2, 3] [] [raw [2]] 3))
          (clone (strict (demo 1 [1, 2, 3] [] [raw [2]] 3)) (raw [2]))"
    by code_simp
  have s0: "target_uncovered_functions (strict (demo 2 [1, 2, 3] [] [] 3)) (tape ?st) [] 10 = []"
    by code_simp
  have p0: "0 < cfg_population (strict (demo 2 [1, 2, 3] [] [] 3))"
    by code_simp
  have "evolve_targeted (strict (demo 3 [1, 2, 3] [] [raw [2]] 3)) ?st []
          = Some (Inl AttributeError)"
    using evolve_targeted_raises
      [THEN conjunct1, of "strict (demo 3 [1, 2, 3] [] [raw [2]] 3)" ?st "[]"] s3 n3 c3
    by simp
  moreover have "evolve_targeted (strict (demo 1 [1, 2, 3] [] [raw [2]] 3)) ?st1 []
          = Some (Inl AttributeError)"
    using evolve_targeted_raises
      [THEN conjunct1, of "strict (demo 1 [1, 2, 3] [] [raw [2]] 3)" ?st1 "[]"] s1 n1 c1
    by simp
  moreover have "evolve_targeted (strict (demo 2 [1, 2, 3] [] [] 3)) ?st [] = Some (Inl IndexError)"
    using evolve_targeted_raises
      [THEN conjunct2, of "strict (demo 2 [1, 2, 3] [] [] 3)" ?st "[]"] s0 p0
    by simp
  ultimately show ?thesis
    using s3 n3 c3 s0 by simp
qed

section \<open>Properties of generate_tests\<close>

subsection \<open>The stagnation counter\<close>







subsection \<open>Leaving the main loop\<close>

lemma search_loop_exit:
  assumes "search_loop E s = Some r"
  shows "\<forall>s'. r = Inr s' \<longrightarrow> \<not> loop_guard E (fst s')"
  apply (rule search_loop.raw_induct
    [where P = "\<lambda>E s r. \<forall>s'. r = Inr s' \<longrightarrow> \<not> loop_guard E (fst s')", OF _ assms])
  subgoal premises prems for loop E s r
  proof (cases "loop_guard E (fst s)")
    case False
    with prems(2) show ?thesis by auto
  next
    case True
    with prems(2) show ?thesis
      by (auto split: option.splits sum.splits dest: prems(1))
  qed
  done

lemma search_loop_not_entered:
  "\<not> loop_guard E (fst s) \<Longrightarrow> search_loop E s = Some (Inr s)"
  by (subst search_loop.simps) simp

text \<open>
  Claim C5. When the main loop is left, the budget is exhausted or every goal is
  covered, and generate_tests returns the test suite of the archive's solutions if
  there are any, and otherwise the suite of the single best-ranked chromosome of the
  final population.
\<close>

theorem generate_tests_returns_solutions_or_best:
  assumes "search_loop E (initial_strategy E,
             length (covered_goals E (archive (initial_strategy E))), 0) = Some (Inr (st', c))"
  shows "\<not> (resources_left E (tape st')
            \<and> length (test_case_fitness_functions E) \<noteq> length (covered_goals E (archive st')))
         \<and> generate_tests E =
             Some (Inr (create_test_suite E
               (if solutions E (archive st') \<noteq> [] then solutions E (archive st')
                else get_best_individuals E st')))
         \<and> get_best_individuals E st' =
             take 1 (get_sub_front (compute_ranking_assignment E (population st')
                       (uncovered_goals E (archive st'))) 0)"
proof -
  have "\<not> loop_guard E st'"
    using search_loop_exit [OF assms] by simp
  then have "\<not> (resources_left E (tape st')
            \<and> length (test_case_fitness_functions E) \<noteq> length (covered_goals E (archive st')))"
    by (simp add: loop_guard_def)
  moreover have "generate_tests E =
             Some (Inr (create_test_suite E
               (if solutions E (archive st') \<noteq> [] then solutions E (archive st')
                else get_best_individuals E st')))"
    using assms by (simp add: generate_tests_def final_suite_def)
  ultimately show ?thesis
    by (simp add: get_best_individuals_def)
qed

theorem generate_tests_returns_solutions_or_best_witness:
  "search_loop (demo 2 [1, 2, 3] [chromosome [7] False 0, chromosome [5] False 0] [] 1)
     (initial_strategy (demo 2 [1, 2, 3] [chromosome [7] False 0, chromosome [5] False 0] [] 1),
      length (covered_goals (demo 2 [1, 2, 3] [chromosome [7] False 0, chromosome [5] False 0] [] 1)
        (archive (initial_strategy
           (demo 2 [1, 2, 3] [chromosome [7] False 0, chromosome [5] False 0] [] 1)))), 0)
     = Some (Inr (\<lparr>population = [chromosome [7, 0] True 2, chromosome [5, 0] True 2],
                   archive = [], tape = 1\<rparr>, 0, 1))
   \<and> generate_tests (demo 2 [1, 2, 3] [chromosome [7] False 0, chromosome [5] False 0] [] 1)
      = Some (Inr [[7, 0]])
   \<and> search_loop (demo 2 [1, 2, 3] [chromosome [1] False 0, chromosome [5] False 0] [] 1)
     (initial_strategy (demo 2 [1, 2, 3] [chromosome [1] False 0, chromosome [5] False 0] [] 1),
      length (covered_goals (demo 2 [1, 2, 3] [chromosome [1] False 0, chromosome [5] False 0] [] 1)
        (archive (initial_strategy
           (demo 2 [1, 2, 3] [chromosome [1] False 0, chromosome [5] False 0] [] 1)))), 0)
     = Some (Inr (\<lparr>population = [chromosome [1, 0] True 2, chromosome [5, 0] True 2],
                   archive = [(1, chromosome [1] False 0)], tape = 1\<rparr>, 1, 1))
   \<and> generate_tests (demo 2 [1, 2, 3] [chromosome [1] False 0, chromosome [5] False 0] [] 1)
      = Some (Inr [[1]])"
proof -
  have a: "search_loop (demo 2 [1, 2, 3] [chromosome [7] False 0, chromosome [5] False 0] [] 1)
     (initial_strategy (demo 2 [1, 2, 3] [chromosome [7] False 0, chromosome [5] False 0] [] 1),
      length (covered_goals (demo 2 [1, 2, 3] [chromosome [7] False 0, chromosome [5] False 0] [] 1)
        (archive (initial_strategy
           (demo 2 [1, 2, 3] [chromosome [7] False 0, chromosome [5] False 0] [] 1)))), 0)
     = Some (Inr (\<lparr>population = [chromosome [7, 0] True 2, chromosome [5, 0] True 2],
                   archive = [], tape = 1\<rparr>, 0, 1))"
    by code_simp
  have b: "search_loop (demo 2 [1, 2, 3] [chromosome [1] False 0, chromosome [5] False 0] [] 1)
     (initial_strategy (demo 2 [1, 2, 3] [chromosome [1] False 0, chromosome [5] False 0] [] 1),
      length (covered_goals (demo 2 [1, 2, 3] [chromosome [1] False 0, chromosome [5] False 0] [] 1)
        (archive (initial_strategy
           (demo 2 [1, 2, 3] [chromosome [1] False 0, chromosome [5] False 0] [] 1)))), 0)
     = Some (Inr (\<lparr>population = [chromosome [1, 0] True 2, chromosome [5, 0] True 2],
                   archive = [(1, chromosome [1] False 0)], tape = 1\<rparr>, 1, 1))"
    by code_simp
  have "generate_tests (demo 2 [1, 2, 3] [chromosome [7] False 0, chromosome [5] False 0] [] 1)
      = Some (Inr [[7, 0]])"
    by (subst generate_tests_returns_solutions_or_best [OF a, THEN conjunct2, THEN conjunct1])
       code_simp
  moreover have "generate_tests (demo 2 [1, 2, 3] [chromosome [1] False 0, chromosome [5] False 0] [] 1)
      = Some (Inr [[1]])"
    by (subst generate_tests_returns_solutions_or_best [OF b, THEN conjunct2, THEN conjunct1])
       code_simp
  ultimately show ?thesis using a b by blast
qed

subsection \<open>No uncovered goal after the initialisation\<close>

text \<open>
  Claim C7 says that with no uncovered goal after the initialisation, zero goals
  included, the result is the suite of the archive's solutions. With zero goals the
  archive has no solution, and line 83 falls back to the best individual of the
  population: the suite returned holds that test, and the suite of the solutions is
  empty.
\<close>

theorem generate_tests_zero_goals_counterexample:
  "test_case_fitness_functions (demo 2 [] [chromosome [1] False 0, chromosome [5] False 0] [] 3) = []
   \<and> uncovered_goals (demo 2 [] [chromosome [1] False 0, chromosome [5] False 0] [] 3)
        (archive (initial_strategy
           (demo 2 [] [chromosome [1] False 0, chromosome [5] False 0] [] 3))) = []
   \<and> generate_tests (demo 2 [] [chromosome [1] False 0, chromosome [5] False 0] [] 3)
      = Some (Inr [[1]])
   \<and> create_test_suite (demo 2 [] [chromosome [1] False 0, chromosome [5] False 0] [] 3)
        (solutions (demo 2 [] [chromosome [1] False 0, chromosome [5] False 0] [] 3)
           (archive (initial_strategy
              (demo 2 [] [chromosome [1] False 0, chromosome [5] False 0] [] 3)))) = []"
  by code_simp

text \<open>
  Claim C7 as amended. If no goal is uncovered after the initialisation (the archive
  splits the goals into covered and uncovered ones), the body of the main loop is
  never executed: the loop returns the state of the initialisation, and
  generate_tests returns the suite of the archive's solutions as they stand after
  the initialisation if there are any, and otherwise, as with zero goals, the suite
  of the best individual of the initial population.
\<close>

theorem generate_tests_without_uncovered_goals:
  assumes "uncovered_goals E (archive (initial_strategy E)) = []"
      and "length (covered_goals E (archive (initial_strategy E)))
             + length (uncovered_goals E (archive (initial_strategy E)))
           = length (test_case_fitness_functions E)"
  shows "search_loop E (initial_strategy E,
             length (covered_goals E (archive (initial_strategy E))), 0)
           = Some (Inr (initial_strategy E,
               length (covered_goals E (archive (initial_strategy E))), 0))
         \<and> generate_tests E =
             Some (Inr (create_test_suite E
               (if solutions E (archive (initial_strategy E)) \<noteq> []
                then solutions E (archive (initial_strategy E))
                else get_best_individuals E (initial_strategy E))))"
proof -
  have "\<not> loop_guard E (initial_strategy E)"
    using assms by (simp add: loop_guard_def)
  then have "search_loop E (initial_strategy E,
             length (covered_goals E (archive (initial_strategy E))), 0)
           = Some (Inr (initial_strategy E,
               length (covered_goals E (archive (initial_strategy E))), 0))"
    by (simp add: search_loop_not_entered)
  then show ?thesis
    by (simp add: generate_tests_def final_suite_def)
qed

theorem generate_tests_without_uncovered_goals_witness:
  "uncovered_goals (demo 2 [1] [chromosome [1] False 0, chromosome [5] False 0] [] 1)
     (archive (initial_strategy
        (demo 2 [1] [chromosome [1] False 0, chromosome [5] False 0] [] 1))) = []
   \<and> resources_left (demo 2 [1] [chromosome [1] False 0, chromosome [5] False 0] [] 1) 0
   \<and> generate_tests (demo 2 [1] [chromosome [1] False 0, chromosome [5] False 0] [] 1)
      = Some (Inr [[1]])"
proof -
  have u: "uncovered_goals (demo 2 [1] [chromosome [1] False 0, chromosome [5] False 0] [] 1)
     (archive (initial_strategy
        (demo 2 [1] [chromosome [1] False 0, chromosome [5] False 0] [] 1))) = []"
    by code_simp
  have p: "length (covered_goals (demo 2 [1] [chromosome [1] False 0, chromosome [5] False 0] [] 1)
             (archive (initial_strategy
                (demo 2 [1] [chromosome [1] False 0, chromosome [5] False 0] [] 1))))
           + length (uncovered_goals (demo 2 [1] [chromosome [1] False 0, chromosome [5] False 0] [] 1)
             (archive (initial_strategy
                (demo 2 [1] [chromosome [1] False 0, chromosome [5] False 0] [] 1))))
           = length (test_case_fitness_functions
               (demo 2 [1] [chromosome [1] False 0, chromosome [5] False 0] [] 1))"
    by code_simp
  have r: "resources_left (demo 2 [1] [chromosome [1] False 0, chromosome [5] False 0] [] 1) 0"
    by code_simp
  have "generate_tests (demo 2 [1] [chromosome [1] False 0, chromosome [5] False 0] [] 1)
      = Some (Inr [[1]])"
    by (subst generate_tests_without_uncovered_goals [OF u p, THEN conjunct2]) code_simp
  with u r show ?thesis by blast
qed

section \<open>Properties of the accessible objects\<close>

text \<open>
  Claim C10. Every instance of GenericConstructor, GenericMethod, GenericFunction or
  GenericField answers True to exactly one of is_constructor, is_method, is_function and
  is_field, namely the one of its own class, and False to the other three.
\<close>

theorem kind_predicates_exclusive:
  "(is_constructor (GenericConstructor ow sg :: ('o, 'f, 's) accessible)
      \<and> \<not> is_method (GenericConstructor ow sg :: ('o, 'f, 's) accessible)
      \<and> \<not> is_function (GenericConstructor ow sg :: ('o, 'f, 's) accessible)
      \<and> \<not> is_field (GenericConstructor ow sg :: ('o, 'f, 's) accessible))
   \<and> (is_method (GenericMethod ow c sg :: ('o, 'f, 's) accessible)
      \<and> \<not> is_constructor (GenericMethod ow c sg :: ('o, 'f, 's) accessible)
      \<and> \<not> is_function (GenericMethod ow c sg :: ('o, 'f, 's) accessible)
      \<and> \<not> is_field (GenericMethod ow c sg :: ('o, 'f, 's) accessible))
   \<and> (is_function (GenericFunction c sg :: ('o, 'f, 's) accessible)
      \<and> \<not> is_constructor (GenericFunction c sg :: ('o, 'f, 's) accessible)
      \<and> \<not> is_method (GenericFunction c sg :: ('o, 'f, 's) accessible)
      \<and> \<not> is_field (GenericFunction c sg :: ('o, 'f, 's) accessible))
   \<and> (is_field (GenericField ow fld ty :: ('o, 'f, 's) accessible)
      \<and> \<not> is_constructor (GenericField ow fld ty :: ('o, 'f, 's) accessible)
      \<and> \<not> is_method (GenericField ow fld ty :: ('o, 'f, 's) accessible)
      \<and> \<not> is_function (GenericField ow fld ty :: ('o, 'f, 's) accessible))
   \<and> (of_bool (is_constructor x) + of_bool (is_method x)
        + of_bool (is_function x) + of_bool (is_field x) = (1::nat))"
  by (cases x) simp_all

text \<open>
  Claim C9. Two GenericField objects with equal owners are equal under __eq__ whatever
  their field names are, while __hash__ adds 17 times the hash of the field name; so two
  fields of one owner whose names hash differently are equal objects with different
  hash values.
\<close>

theorem GenericField_eq_ignores_field_name:
  "GenericField_eq (GenericField ow fld1 ty1 :: ('o, 'f, 's) accessible) (GenericField ow fld2 ty2)
   \<and> GenericField_hash hash_owner hash_str (GenericField ow fld1 ty1 :: ('o, 'f, 's) accessible)
       = 31 + 17 * hash_owner ow + 17 * hash_str fld1
   \<and> ((GenericField_hash hash_owner hash_str (GenericField ow fld1 ty1 :: ('o, 'f, 's) accessible)
         = GenericField_hash hash_owner hash_str (GenericField ow fld2 ty2 :: ('o, 'f, 's) accessible))
       = (hash_str fld1 = hash_str fld2))"
  by simp

theorem GenericField_eq_ignores_field_name_witness:
  "GenericField_eq (GenericField (0::nat) ''x'' None :: (nat, unit, unit) accessible)
     (GenericField 0 ''yz'' None)
   \<and> GenericField_hash (\<lambda>ow. int ow) (\<lambda>fld. int (length fld))
       (GenericField (0::nat) ''x'' None :: (nat, unit, unit) accessible) = 48
   \<and> GenericField_hash (\<lambda>ow. int ow) (\<lambda>fld. int (length fld))
       (GenericField (0::nat) ''yz'' None :: (nat, unit, unit) accessible) = 65"
  using GenericField_eq_ignores_field_name
    [of "0::nat" "''x''" None "''yz''" None "\<lambda>ow. int ow" "\<lambda>fld. int (length fld)"]
  by simp

end
